theory Spec2Isabelle
  imports Complex_Main "HOL-Library.Word"
begin

unbundle bit_operations_syntax

section \<open>Go runtime values used by the network and rpc packages\<close>

type_synonym byte = "8 word"
type_synonym uint16 = "16 word"

text \<open>
  A goroutine that panics: the run-time errors the modelled code can raise.
\<close>

datatype panic =
    CloseOfClosedChannel
  | SendOnClosedChannel
  | NilPointerDereference
  | InterfaceConversion
  | IndexOutOfRange
  | ReflectConvert
  | MethodPanic

text \<open>
  How a call ends: it returns, its goroutine stays parked at a channel operation, or it
  panics.
\<close>

datatype status = Done | Blocked | Panicked panic

text \<open>
  A Go channel made by \<^verbatim>\<open>make(chan T, cap)\<close>: the values in it, oldest first, and the
  closed flag. The first \<open>cap\<close> values are in the buffer; each further one is held by a
  sender parked on the full buffer.
\<close>

record 'a chan =
  queue :: "'a list"
  cap :: nat
  is_closed :: bool

definition make_chan :: "nat \<Rightarrow> 'a chan" where
  "make_chan n = \<lparr>queue = [], cap = n, is_closed = False\<rparr>"

text \<open>
  \<^verbatim>\<open>ch <- v\<close>. On a closed channel the sender panics. Otherwise the value joins the
  queue; the sender goes on (\<open>True\<close>) when the buffer had room and parks (\<open>False\<close>) when it
  was full.
\<close>

definition chan_send :: "'a \<Rightarrow> 'a chan \<Rightarrow> panic + (bool \<times> 'a chan)" where
  "chan_send v ch =
     (if is_closed ch then Inl SendOnClosedChannel
      else Inr (length (queue ch) < cap ch, ch\<lparr>queue := queue ch @ [v]\<rparr>))"

text \<open>\<^verbatim>\<open>close(ch)\<close>: closing a closed channel panics.\<close>

definition chan_close :: "'a chan \<Rightarrow> panic + 'a chan" where
  "chan_close ch =
     (if is_closed ch then Inl CloseOfClosedChannel else Inr (ch\<lparr>is_closed := True\<rparr>))"


section \<open>network: constants and the data packet\<close>

abbreviation (input) NEW_CONNECTION :: int where "NEW_CONNECTION \<equiv> 0"
abbreviation (input) WORKING :: int where "WORKING \<equiv> 1"
abbreviation (input) CLOSING :: int where "CLOSING \<equiv> 2"
abbreviation (input) CLOSED :: int where "CLOSED \<equiv> 3"

abbreviation (input) PKG_TYPE :: byte where "PKG_TYPE \<equiv> 0"
abbreviation (input) DATA :: byte where "DATA \<equiv> 3"

record Data =
  dType :: byte
  head :: uint16
  body :: "byte list"

section \<open>network: the session\<close>

text \<open>
  The connection of a session (\<^verbatim>\<open>io.ReadWriteCloser\<close>): the bytes the peer has sent and
  that are still unread (end of stream after them), the bytes written so far, and whether
  the connection was closed on this side.
\<close>

record Conn =
  unread :: "byte list"
  written :: "byte list"
  conn_closed :: bool

datatype io_error = EOF | ErrUnexpectedEOF | ErrClosed

text \<open>
  \<^verbatim>\<open>io.ReadFull(conn, buf)\<close> for a buffer of \<open>n > 0\<close> bytes: \<open>EOF\<close> when nothing could be
  read, \<open>ErrUnexpectedEOF\<close> when the stream ends after fewer than \<open>n\<close> bytes.
\<close>

definition ReadFull :: "nat \<Rightarrow> Conn \<Rightarrow> (io_error + byte list) \<times> Conn" where
  "ReadFull n c =
     (if conn_closed c then (Inl ErrClosed, c)
      else if unread c = [] then (Inl EOF, c)
      else if length (unread c) < n then (Inl ErrUnexpectedEOF, c\<lparr>unread := []\<rparr>)
      else (Inr (take n (unread c)), c\<lparr>unread := drop n (unread c)\<rparr>))"

text \<open>
  The struct \<^verbatim>\<open>Session\<close>. The callback \<^verbatim>\<open>msgHandle\<close> is not a field here: a call of it
  appears as the task the dispatch loop spawns.
\<close>

record Session =
  fd :: uint16
  conn :: Conn
  inData :: "Data chan"
  outData :: "byte list chan"
  cClose :: "bool chan"
  state :: int

text \<open>\<^verbatim>\<open>util.Counter.GetNum\<close>: increment the 16-bit counter, return the new value.\<close>

definition GetNum :: "uint16 \<Rightarrow> uint16 \<times> uint16" where
  "GetNum num = (num + 1, num + 1)"

text \<open>
  \<^verbatim>\<open>CreateSession\<close>, with the value of the process-wide session counter passed in and
  returned.
\<close>

definition CreateSession :: "uint16 \<Rightarrow> Conn \<Rightarrow> Session \<times> uint16" where
  "CreateSession sessionCounter c =
     (let (n, counter') = GetNum sessionCounter
      in (\<lparr>fd = n, conn = c, inData = make_chan 1, outData = make_chan 1,
           cClose = make_chan 0, state = NEW_CONNECTION\<rparr>, counter'))"

text \<open>
  \<^verbatim>\<open>Start\<close> sets the state and launches the two pumps; \<^verbatim>\<open>Close\<close> sets the state. Neither
  looks at the state the session is in.
\<close>

definition Start :: "Session \<Rightarrow> Session" where
  "Start s = s\<lparr>state := WORKING\<rparr>"

definition Close :: "Session \<Rightarrow> Session" where
  "Close s = s\<lparr>state := CLOSING\<rparr>"

text \<open>
  \<^verbatim>\<open>Release\<close> is four statements: three closes, in the order of the source, and the
  assignment of the state. Each close panics on a closed channel, which ends the call
  before the statements after it. Other goroutines can run between two statements, so
  each statement is a function of its own.
\<close>

definition close_inData :: "Session \<Rightarrow> panic + Session" where
  "close_inData s =
     (case chan_close (inData s) of Inl p \<Rightarrow> Inl p | Inr ch \<Rightarrow> Inr (s\<lparr>inData := ch\<rparr>))"

definition close_outData :: "Session \<Rightarrow> panic + Session" where
  "close_outData s =
     (case chan_close (outData s) of Inl p \<Rightarrow> Inl p | Inr ch \<Rightarrow> Inr (s\<lparr>outData := ch\<rparr>))"

definition close_cClose :: "Session \<Rightarrow> panic + Session" where
  "close_cClose s =
     (case chan_close (cClose s) of Inl p \<Rightarrow> Inl p | Inr ch \<Rightarrow> Inr (s\<lparr>cClose := ch\<rparr>))"

definition Release :: "Session \<Rightarrow> panic + Session" where
  "Release s =
     (case close_inData s of
        Inl p \<Rightarrow> Inl p
      | Inr s1 \<Rightarrow>
         (case close_outData s1 of
            Inl p \<Rightarrow> Inl p
          | Inr s2 \<Rightarrow>
             (case close_cClose s2 of
                Inl p \<Rightarrow> Inl p
              | Inr s3 \<Rightarrow> Inr (s3\<lparr>state := CLOSED\<rparr>))))"

text \<open>
  \<^verbatim>\<open>pack\<close>. \<open>len\<close> is Go's \<^verbatim>\<open>int\<close>; \<^verbatim>\<open>uint8(x)\<close> keeps the low eight bits and
  \<^verbatim>\<open>x >> 8\<close> drops them.
\<close>

definition pack :: "uint16 \<Rightarrow> byte \<Rightarrow> byte list \<Rightarrow> byte list" where
  "pack hd_id dtype bdy =
     (let len0 = int (length bdy);
          len = (if len0 > 65535 then 0 else len0);
          bdy' = (if len0 > 65535 then [] else bdy)
      in [word_of_int len, word_of_int (drop_bit 8 len), dtype,
          ucast hd_id, ucast (drop_bit 8 hd_id)] @ bdy')"

datatype reader_result = ReadOk | ReadErr io_error | ReadBlocked | ReadPanic panic

text \<open>
  \<^verbatim>\<open>Reader\<close>: five header bytes, then \<open>pkgLen\<close> body bytes when \<open>pkgLen > 0\<close> (the body
  stays the nil slice otherwise, the empty list here), then the packet goes to
  \<^verbatim>\<open>inData\<close>.
\<close>

definition Reader :: "Session \<Rightarrow> reader_result \<times> Session" where
  "Reader s =
     (case ReadFull 5 (conn s) of
        (Inl e, c1) \<Rightarrow> (ReadErr e, s\<lparr>conn := c1\<rparr>)
      | (Inr b, c1) \<Rightarrow>
         (let pkgLen = (ucast (b ! 0) :: uint16) + push_bit 8 (ucast (b ! 1));
              pkg = \<lparr>dType = b ! 2,
                     head = ucast (b ! 3) + push_bit 8 (ucast (b ! 4)),
                     body = []\<rparr>;
              r = (if pkgLen > 0
                   then (case ReadFull (unat pkgLen) c1 of
                           (Inl e, c2) \<Rightarrow> (Inl e, c2)
                         | (Inr bs, c2) \<Rightarrow> (Inr (pkg\<lparr>body := bs\<rparr>), c2))
                   else (Inr pkg, c1))
          in (case r of
                (Inl e, c2) \<Rightarrow> (ReadErr e, s\<lparr>conn := c2\<rparr>)
              | (Inr pkg', c2) \<Rightarrow>
                 (case chan_send pkg' (inData s) of
                    Inl p \<Rightarrow> (ReadPanic p, s\<lparr>conn := c2\<rparr>)
                  | Inr (went, ch) \<Rightarrow>
                      (if went then ReadOk else ReadBlocked,
                       s\<lparr>conn := c2, inData := ch\<rparr>)))))"

text \<open>
  \<^verbatim>\<open>doWrite\<close>: the state guard, the nil payload replaced by the empty one, then the
  packet goes to \<^verbatim>\<open>outData\<close>.
\<close>

definition doWrite :: "Session \<Rightarrow> uint16 \<Rightarrow> byte \<Rightarrow> byte list option \<Rightarrow> status \<times> Session" where
  "doWrite s hd_id dtype data =
     (if state s \<noteq> WORKING then (Done, s)
      else
        (let data' = (case data of None \<Rightarrow> [] | Some d \<Rightarrow> d);
             pkg = pack hd_id dtype data'
         in (case chan_send pkg (outData s) of
               Inl p \<Rightarrow> (Panicked p, s)
             | Inr (went, ch) \<Rightarrow>
                 (if went then Done else Blocked, s\<lparr>outData := ch\<rparr>))))"

section \<open>The lifecycle operations as a run\<close>

datatype session_op = OpStart | OpClose | OpRelease

fun apply_op :: "session_op \<Rightarrow> Session \<Rightarrow> panic + Session" where
  "apply_op OpStart s = Inr (Start s)"
| "apply_op OpClose s = Inr (Close s)"
| "apply_op OpRelease s = Release s"

text \<open>The state each operation writes.\<close>

fun target :: "session_op \<Rightarrow> int" where
  "target OpStart = WORKING"
| "target OpClose = CLOSING"
| "target OpRelease = CLOSED"

text \<open>
  The states a session goes through when the operations are applied one after the other;
  a panic ends the run.
\<close>

fun run_trace :: "Session \<Rightarrow> session_op list \<Rightarrow> int list" where
  "run_trace s [] = []"
| "run_trace s (x # xs) =
     (case apply_op x s of Inl p \<Rightarrow> [] | Inr s' \<Rightarrow> state s' # run_trace s' xs)"

text \<open>
  The run only moves forward: the states, from the one the session starts in, never
  decrease along \<open>NEW_CONNECTION < WORKING < CLOSING < CLOSED\<close>.
\<close>

definition moves_forward :: "Session \<Rightarrow> session_op list \<Rightarrow> bool" where
  "moves_forward s ops = sorted (state s # run_trace s ops)"

section \<open>network: the connection layer\<close>

text \<open>
  \<^verbatim>\<open>TcpConn.NewSession\<close> creates the session and starts it; \<^verbatim>\<open>TcpConn.Write\<close> writes a
  \<open>DATA\<close> frame.
\<close>

definition NewSession :: "uint16 \<Rightarrow> Conn \<Rightarrow> Session \<times> uint16" where
  "NewSession sessionCounter c =
     (let (session, counter') = CreateSession sessionCounter c
      in (Start session, counter'))"

definition Write :: "Session \<Rightarrow> uint16 \<Rightarrow> byte list option \<Rightarrow> status \<times> Session" where
  "Write s sID buff = doWrite s sID DATA buff"






section \<open>rpc: values and the libraries the package calls\<close>

text \<open>
  What \<^verbatim>\<open>encoding/json\<close> decodes into an \<^verbatim>\<open>interface{}\<close>: nil, a bool, a number (a
  \<^verbatim>\<open>float64\<close>, whose finite values are rationals), a string, a slice, a map.
\<close>

datatype jval =
    JNull
  | JBool bool
  | JNum rat
  | JStr string
  | JArr "jval list"
  | JObj "(string \<times> jval) list"

datatype json_error = SyntaxError | UnmarshalTypeError | UnsupportedValue

text \<open>
  \<^verbatim>\<open>json.Unmarshal\<close> into a \<^verbatim>\<open>[]interface{}\<close> and \<^verbatim>\<open>json.Marshal\<close> of one are taken as
  parameters.
\<close>

record json_lib =
  Unmarshal :: "byte list \<Rightarrow> json_error + jval list"
  Marshal :: "jval list \<Rightarrow> json_error + byte list"

text \<open>The types a registered method declares for its parameters.\<close>

datatype gotype = GoBool | GoInt | GoFloat64 | GoString | GoInterface

text \<open>
  \<^verbatim>\<open>reflect.ValueOf(v).Convert(t)\<close> for a decoded value and a declared type. The result is
  kept as the value with its new type; \<open>None\<close> is the panic of \<^verbatim>\<open>Convert\<close>: on the zero
  \<^verbatim>\<open>Value\<close> of nil, and wherever Go has no conversion (a number converts to the numeric
  types, a string to string, a bool to bool, everything but nil to \<^verbatim>\<open>interface{}\<close>).
\<close>

fun Convert :: "jval \<Rightarrow> gotype \<Rightarrow> (jval \<times> gotype) option" where
  "Convert JNull t = None"
| "Convert (JBool b) t =
     (if t = GoBool \<or> t = GoInterface then Some (JBool b, t) else None)"
| "Convert (JNum x) t =
     (if t = GoInt \<or> t = GoFloat64 \<or> t = GoInterface then Some (JNum x, t) else None)"
| "Convert (JStr x) t =
     (if t = GoString \<or> t = GoInterface then Some (JStr x, t) else None)"
| "Convert (JArr xs) t = (if t = GoInterface then Some (JArr xs, t) else None)"
| "Convert (JObj kvs) t = (if t = GoInterface then Some (JObj kvs, t) else None)"

text \<open>
  \<^verbatim>\<open>strings.LastIndex(s, sep)\<close> for a separator of one byte: the index of its last
  occurrence, or \<open>-1\<close>.
\<close>

fun last_index_from :: "string \<Rightarrow> char \<Rightarrow> nat \<Rightarrow> int \<Rightarrow> int" where
  "last_index_from [] c i found = found"
| "last_index_from (x # xs) c i found =
     last_index_from xs c (Suc i) (if x = c then int i else found)"

definition LastIndex :: "string \<Rightarrow> char \<Rightarrow> int" where
  "LastIndex s c = last_index_from s c 0 (- 1)"

section \<open>rpc: the server\<close>

text \<open>
  A registered method: the declared parameter types and the function behind
  \<^verbatim>\<open>method.Func\<close>, already bound to its receiver; \<open>None\<close> is a call that panics.
\<close>

record methodType =
  args :: "gotype list"
  Func :: "(jval \<times> gotype) list \<Rightarrow> jval list option"

record Service =
  name :: string
  methods :: "string \<rightharpoonup> methodType"

text \<open>
  The server. Its sessions are the objects the map points to, so a write on a session
  is a new value of the map at that key.
\<close>

record Server =
  serviceMap :: "string \<rightharpoonup> Service"
  sessions :: "uint16 \<rightharpoonup> Session"

text \<open>
  The loop of \<^verbatim>\<open>Message\<close> that fills \<^verbatim>\<open>callArgs\<close>: for each declared type, in order, the
  next decoded argument is indexed (out of range: panic) and converted (no conversion:
  panic). Arguments beyond the declared ones are not looked at.
\<close>

fun convert_args :: "jval list \<Rightarrow> gotype list \<Rightarrow> panic + (jval \<times> gotype) list" where
  "convert_args as [] = Inr []"
| "convert_args [] (t # ts) = Inl IndexOutOfRange"
| "convert_args (a # as) (t # ts) =
     (case Convert a t of
        None \<Rightarrow> Inl ReflectConvert
      | Some v \<Rightarrow>
         (case convert_args as ts of
            Inl p \<Rightarrow> Inl p
          | Inr vs \<Rightarrow> Inr (v # vs)))"

text \<open>\<^verbatim>\<open>RunFunc\<close>: \<open>None\<close> is the nil slice returned for a method without results.\<close>

definition RunFunc :: "methodType \<Rightarrow> (jval \<times> gotype) list \<Rightarrow> panic + jval list option" where
  "RunFunc m callArgs =
     (case Func m callArgs of
        None \<Rightarrow> Inl MethodPanic
      | Some callRet \<Rightarrow> Inr (if callRet = [] then None else Some callRet))"

text \<open>\<^verbatim>\<open>this.tcpServer.Write(s, sessionID, buff)\<close> on the session stored under \<open>fd\<close>.\<close>

definition Server_Write ::
  "Server \<Rightarrow> uint16 \<Rightarrow> Session \<Rightarrow> uint16 \<Rightarrow> byte list option \<Rightarrow> status \<times> Server" where
  "Server_Write srv fd_key s sessionID buff =
     (let (st, s') = Write s sessionID buff
      in (st, srv\<lparr>sessions := (sessions srv)(fd_key \<mapsto> s')\<rparr>))"

text \<open>\<^verbatim>\<open>Server.Message\<close>. Every \<^verbatim>\<open>return\<close> after a log line is \<open>(Done, srv)\<close>.\<close>

definition Server_Message ::
  "json_lib \<Rightarrow> Server \<Rightarrow> uint16 \<Rightarrow> uint16 \<Rightarrow> byte list \<Rightarrow> status \<times> Server" where
  "Server_Message lib srv fd_key sessionID bdy =
     (case sessions srv fd_key of
        None \<Rightarrow> (Done, srv)
      | Some s \<Rightarrow>
         (case Unmarshal lib bdy of
            Inl err \<Rightarrow> (Done, srv)
          | Inr [] \<Rightarrow> (Done, srv)
          | Inr (JStr info # rest) \<Rightarrow>
             (let dot = LastIndex info CHR ''.''
              in if dot < 0 then (Done, srv)
                 else
                   (let serviceName = take (nat dot) info;
                        methodName = drop (nat dot + 1) info
                    in case serviceMap srv serviceName of
                         None \<Rightarrow> (Done, srv)
                       | Some sInfo \<Rightarrow>
                          (case methods sInfo methodName of
                             None \<Rightarrow> (Done, srv)
                           | Some mInfo \<Rightarrow>
                              (case convert_args rest (args mInfo) of
                                 Inl p \<Rightarrow> (Panicked p, srv)
                               | Inr callArgs \<Rightarrow>
                                  (case RunFunc mInfo callArgs of
                                     Inl p \<Rightarrow> (Panicked p, srv)
                                   | Inr None \<Rightarrow> Server_Write srv fd_key s sessionID None
                                   | Inr (Some ret) \<Rightarrow>
                                      (case Marshal lib ret of
                                         Inl err \<Rightarrow> (Done, srv)
                                       | Inr retBody \<Rightarrow>
                                           Server_Write srv fd_key s sessionID
                                             (Some retBody)))))))
          | Inr (other # rest) \<Rightarrow> (Panicked InterfaceConversion, srv)))"

section \<open>rpc: the client\<close>

text \<open>
  A waiter, the channel \<^verbatim>\<open>make(chan []interface{})\<close> of one call. It has no buffer: a
  send goes through when the caller is blocked receiving in its \<^verbatim>\<open>select\<close>, and parks
  otherwise. \<open>received\<close> is what the caller took from the channel.
\<close>

record waiter =
  receiving :: bool
  received :: "jval list option"
  senders :: "jval list list"
  wclosed :: bool

definition new_waiter :: waiter where
  "new_waiter = \<lparr>receiving = False, received = None, senders = [], wclosed = False\<rparr>"

definition waiter_send :: "jval list \<Rightarrow> waiter \<Rightarrow> panic + (bool \<times> waiter)" where
  "waiter_send v w =
     (if wclosed w then Inl SendOnClosedChannel
      else if receiving w then Inr (True, w\<lparr>receiving := False, received := Some v\<rparr>)
      else Inr (False, w\<lparr>senders := senders w @ [v]\<rparr>))"

definition waiter_close :: "waiter \<Rightarrow> panic + waiter" where
  "waiter_close w =
     (if wclosed w then Inl CloseOfClosedChannel else Inr (w\<lparr>wclosed := True\<rparr>))"

text \<open>
  The client: the pending-call table from correlation ids to waiters, the waiters
  themselves (the table and the callers share them, so they live in a store under the
  address the table holds), the next free address, the counter of the TCP client, and
  the session (nil until \<^verbatim>\<open>Connect\<close>).
\<close>

record Client =
  callRet :: "uint16 \<rightharpoonup> nat"
  chans :: "nat \<Rightarrow> waiter"
  next_chan :: nat
  msgCounter :: uint16
  session :: "Session option"

text \<open>\<^verbatim>\<open>Client.Message\<close>.\<close>

definition Client_Message ::
  "json_lib \<Rightarrow> Client \<Rightarrow> uint16 \<Rightarrow> uint16 \<Rightarrow> byte list \<Rightarrow> status \<times> Client" where
  "Client_Message lib c fd_key sessionID bdy =
     (case callRet c sessionID of
        None \<Rightarrow> (Done, c)
      | Some waitRet \<Rightarrow>
         (case Unmarshal lib bdy of
            Inl err \<Rightarrow> (Done, c)
          | Inr as \<Rightarrow>
             (case waiter_send as (chans c waitRet) of
                Inl p \<Rightarrow> (Panicked p, c)
              | Inr (False, w) \<Rightarrow> (Blocked, c\<lparr>chans := (chans c)(waitRet := w)\<rparr>)
              | Inr (True, w) \<Rightarrow>
                 (let c1 = c\<lparr>chans := (chans c)(waitRet := w),
                             callRet := (callRet c)(sessionID := None)\<rparr>
                  in case waiter_close w of
                       Inl p \<Rightarrow> (Panicked p, c1)
                     | Inr w' \<Rightarrow> (Done, c1\<lparr>chans := (chans c1)(waitRet := w')\<rparr>)))))"

text \<open>How a call of \<^verbatim>\<open>Call\<close> ends: with its result (\<open>None\<close> is nil), parked, or in a panic.\<close>

datatype call_result = CallReturned "jval list option" | CallParked | CallPanicked panic

text \<open>
  \<^verbatim>\<open>Call\<close> up to its \<^verbatim>\<open>select\<close>: \<open>Inl\<close> when the call ends before (the arguments do not
  encode, the session is nil, the write parks or panics), \<open>Inr\<close> with the correlation id
  and the waiter when the caller is blocked in the \<^verbatim>\<open>select\<close>, where it is receiving on
  its waiter. The waiter is made before the arguments are encoded and is registered only
  after they are.
\<close>

definition Call_issue ::
  "json_lib \<Rightarrow> Client \<Rightarrow> jval list \<Rightarrow> (call_result \<times> Client) + (Client \<times> uint16 \<times> nat)" where
  "Call_issue lib c v =
     (let (sessionID, counter') = GetNum (msgCounter c);
          waitRet = next_chan c;
          c1 = c\<lparr>msgCounter := counter', next_chan := Suc waitRet,
                  chans := (chans c)(waitRet := new_waiter)\<rparr>
      in case Marshal lib v of
           Inl err \<Rightarrow> Inl (CallReturned None, c1)
         | Inr bdy \<Rightarrow>
            (let c2 = c1\<lparr>callRet := (callRet c1)(sessionID \<mapsto> waitRet)\<rparr>
             in case session c2 of
                  None \<Rightarrow> Inl (CallPanicked NilPointerDereference, c2)
                | Some s \<Rightarrow>
                   (case Write s sessionID (Some bdy) of
                      (Panicked p, s') \<Rightarrow> Inl (CallPanicked p, c2\<lparr>session := Some s'\<rparr>)
                    | (Blocked, s') \<Rightarrow> Inl (CallParked, c2\<lparr>session := Some s'\<rparr>)
                    | (Done, s') \<Rightarrow>
                        Inr (c2\<lparr>session := Some s',
                                 chans := (chans c2)
                                   (waitRet := (chans c2 waitRet)\<lparr>receiving := True\<rparr>)\<rparr>,
                             sessionID, waitRet))))"

text \<open>
  The case the \<^verbatim>\<open>select\<close> of \<^verbatim>\<open>Call\<close> takes: the receive from the waiter, or the timer
  \<^verbatim>\<open>time.After(3 * time.Second)\<close>.
\<close>

datatype call_select = from_waitRet | after_3_seconds

definition Call_select :: "Client \<Rightarrow> nat \<Rightarrow> call_select \<Rightarrow> call_result \<times> Client" where
  "Call_select c waitRet sel =
     (let w = chans c waitRet
      in case sel of
           after_3_seconds \<Rightarrow>
             (CallReturned None, c\<lparr>chans := (chans c)(waitRet := w\<lparr>receiving := False\<rparr>)\<rparr>)
         | from_waitRet \<Rightarrow>
             (case received w of
                Some ret \<Rightarrow> (CallReturned (Some ret), c)
              | None \<Rightarrow>
                  if wclosed w
                  then (CallReturned None,
                        c\<lparr>chans := (chans c)(waitRet := w\<lparr>receiving := False\<rparr>)\<rparr>)
                  else (CallParked, c)))"

text \<open>\<^verbatim>\<open>Call\<close>, with nothing else running between the write and the \<^verbatim>\<open>select\<close>.\<close>

definition Call :: "json_lib \<Rightarrow> Client \<Rightarrow> jval list \<Rightarrow> call_select \<Rightarrow> call_result \<times> Client" where
  "Call lib c v sel =
     (case Call_issue lib c v of
        Inl r \<Rightarrow> r
      | Inr (c', sessionID, waitRet) \<Rightarrow> Call_select c' waitRet sel)"

section \<open>Values for the examples\<close>

text \<open>
  The bytes of \<^verbatim>\<open>["Calc.Add","a",1]\<close>, of \<^verbatim>\<open>["Calc.Add",1,2]\<close> and of \<^verbatim>\<open>[3]\<close>.
\<close>

definition body_bad_arg :: "byte list" where
  "body_bad_arg =
     [91, 34, 67, 97, 108, 99, 46, 65, 100, 100, 34, 44, 34, 97, 34, 44, 49, 93]"

definition body_add :: "byte list" where
  "body_add = [91, 34, 67, 97, 108, 99, 46, 65, 100, 100, 34, 44, 49, 44, 50, 93]"

definition body_three :: "byte list" where
  "body_three = [91, 51, 93]"

text \<open>
  What \<^verbatim>\<open>encoding/json\<close> does on the inputs of the examples: the three texts above, the
  empty input (a syntax error: unexpected end of JSON input) and the slices \<open>[3]\<close> and
  \<open>["Calc.Add", 1, 2]\<close>. No example uses another input.
\<close>

definition example_json :: json_lib where
  "example_json =
     \<lparr>Unmarshal = (\<lambda>b.
         if b = body_bad_arg then Inr [JStr ''Calc.Add'', JStr ''a'', JNum 1]
         else if b = body_add then Inr [JStr ''Calc.Add'', JNum 1, JNum 2]
         else if b = body_three then Inr [JNum 3]
         else Inl SyntaxError),
       Marshal = (\<lambda>v.
         if v = [JNum 3] then Inr body_three
         else if v = [JStr ''Calc.Add'', JNum 1, JNum 2] then Inr body_add
         else Inl UnsupportedValue)\<rparr>"

text \<open>A fresh connection and the session \<^verbatim>\<open>NewSession\<close> makes of it.\<close>

definition example_conn :: Conn where
  "example_conn = \<lparr>unread = [], written = [], conn_closed = False\<rparr>"

definition example_session :: Session where
  "example_session = fst (NewSession 0 example_conn)"

text \<open>
  That session in the middle of its \<^verbatim>\<open>Release\<close>: after the first two statements, before
  the third.
\<close>

definition example_releasing :: Session where
  "example_releasing =
     (case close_inData example_session of
        Inl p \<Rightarrow> example_session
      | Inr s1 \<Rightarrow> (case close_outData s1 of Inl p \<Rightarrow> s1 | Inr s2 \<Rightarrow> s2))"

text \<open>
  A server with the service \<^verbatim>\<open>Calc\<close>, whose method \<^verbatim>\<open>Add(a int, b int) int\<close> is
  registered, and with one connected session.
\<close>

definition example_Add :: methodType where
  "example_Add =
     \<lparr>args = [GoInt, GoInt],
      Func = (\<lambda>vs. case vs of
                 [(JNum a, ta), (JNum b, tb)] \<Rightarrow> Some [JNum (a + b)]
               | _ \<Rightarrow> None)\<rparr>"

definition example_server :: Server where
  "example_server =
     \<lparr>serviceMap = [''Calc'' \<mapsto> \<lparr>name = ''Calc'', methods = [''Add'' \<mapsto> example_Add]\<rparr>],
      sessions = [1 \<mapsto> example_session]\<rparr>"

text \<open>A connected client with no call pending.\<close>

definition example_client :: Client where
  "example_client =
     \<lparr>callRet = Map.empty, chans = (\<lambda>a. new_waiter), next_chan = 0, msgCounter = 0,
      session = Some example_session\<rparr>"

text \<open>
  A client with two calls pending, under the ids 1 and 2, each caller blocked on its own
  waiter; and the client of the example above after a call that timed out.
\<close>

definition example_pending :: Client where
  "example_pending =
     \<lparr>callRet = [1 \<mapsto> 0, 2 \<mapsto> 1],
      chans = (\<lambda>a. if a < 2 then new_waiter\<lparr>receiving := True\<rparr> else new_waiter),
      next_chan = 2, msgCounter = 2, session = Some example_session\<rparr>"

definition example_timed_out :: Client where
  "example_timed_out =
     snd (Call example_json example_client [JStr ''Calc.Add'', JNum 1, JNum 2]
            after_3_seconds)"

section \<open>The wire frame: \<^verbatim>\<open>pack\<close> and \<^verbatim>\<open>Reader\<close>\<close>

lemma byte_pair_add_or:
  "(ucast (a::byte) :: uint16) + push_bit 8 (ucast (b::byte)) = ucast a OR push_bit 8 (ucast b)"
  by (rule disjunctive_add_eq_or, rule bit_word_eqI)
     (auto simp add: bit_simps dest: bit_imp_le_length)

lemma u16_of_bytes:
  "(ucast (ucast (h::uint16) :: byte) :: uint16)
     + push_bit 8 (ucast (ucast (drop_bit 8 h :: uint16) :: byte)) = h"
  unfolding byte_pair_add_or
  by (rule bit_word_eqI) (auto simp add: bit_simps)

lemma len_lo: "(of_nat n :: byte) = ucast (of_nat n :: uint16)"
  by (rule bit_word_eqI) (auto simp add: bit_simps)

lemma len_hi:
  "(word_of_int (drop_bit 8 (int n)) :: byte) = ucast (drop_bit 8 (of_nat n :: uint16))"
  by (rule bit_word_eqI) (auto simp add: bit_simps)

lemma pack_small:
  "length bdy \<le> 65535 \<Longrightarrow>
   pack h t bdy =
     [ucast (of_nat (length bdy) :: uint16), ucast (drop_bit 8 (of_nat (length bdy) :: uint16)),
      t, ucast h, ucast (drop_bit 8 h)] @ bdy"
  apply (simp add: pack_def Let_def)
  apply (simp add: len_lo len_hi)
  done

lemma unat_len: "n \<le> 65535 \<Longrightarrow> unat (of_nat n :: uint16) = n"
  by (simp add: unat_of_nat)

lemma len_pos: "n \<le> 65535 \<Longrightarrow> (0 < (of_nat n :: uint16)) = (n \<noteq> 0)"
  using unat_len [of n] by (auto simp add: word_gt_0 simp flip: unat_eq_0)

text \<open>
  Claim C2. For every correlation id \<open>h\<close>, every kind \<open>t\<close> and every body of at most
  65535 bytes, \<^verbatim>\<open>pack\<close> gives the five header bytes (length low, length high, kind, id
  low, id high) followed by the body, and \<^verbatim>\<open>Reader\<close>, run on a session whose connection
  delivers these bytes (followed by anything) and whose inbound channel is open, hands
  exactly the packet \<open>(t, h, body)\<close> to the inbound channel and leaves the rest of the
  stream unread. It returns \<^verbatim>\<open>nil\<close> when the channel's buffer had room and is parked on
  the channel otherwise.
\<close>

theorem pack_Reader_roundtrip:
  assumes len: "length bdy \<le> 65535"
    and inp: "unread (conn s) = pack h t bdy @ rest"
    and op: "\<not> conn_closed (conn s)"
    and ch: "\<not> is_closed (inData s)"
  shows "pack h t bdy =
           [ucast (of_nat (length bdy) :: uint16),
            ucast (drop_bit 8 (of_nat (length bdy) :: uint16)),
            t, ucast h, ucast (drop_bit 8 h)] @ bdy
    \<and> fst (Reader s) =
        (if length (queue (inData s)) < cap (inData s) then ReadOk else ReadBlocked)
    \<and> queue (inData (snd (Reader s))) =
        queue (inData s) @ [\<lparr>dType = t, head = h, body = bdy\<rparr>]
    \<and> unread (conn (snd (Reader s))) = rest"
proof -
  let ?n = "length bdy"
  have p: "pack h t bdy =
      [ucast (of_nat ?n :: uint16), ucast (drop_bit 8 (of_nat ?n :: uint16)),
       t, ucast h, ucast (drop_bit 8 h)] @ bdy"
    using len by (rule pack_small)
  have hdr: "ReadFull 5 (conn s) =
      (Inr [ucast (of_nat ?n :: uint16), ucast (drop_bit 8 (of_nat ?n :: uint16)),
            t, ucast h, ucast (drop_bit 8 h)],
       (conn s)\<lparr>unread := bdy @ rest\<rparr>)"
    using inp op by (simp add: ReadFull_def p)
  have bd: "?n \<noteq> 0 \<Longrightarrow>
      ReadFull ?n ((conn s)\<lparr>unread := bdy @ rest\<rparr>) = (Inr bdy, (conn s)\<lparr>unread := rest\<rparr>)"
    using op by (simp add: ReadFull_def)
  show ?thesis
  proof (cases "?n = 0")
    case True
    then show ?thesis
      using p ch len
      by (simp add: Reader_def hdr u16_of_bytes len_pos chan_send_def)
  next
    case False
    then show ?thesis
      using p ch len bd
      by (simp add: Reader_def hdr u16_of_bytes len_pos unat_len chan_send_def)
  qed
qed

theorem pack_Reader_roundtrip_witness:
  "fst (Reader \<lparr>fd = 1,
        conn = \<lparr>unread = pack 258 DATA [1, 2, 3] @ [9], written = [], conn_closed = False\<rparr>,
        inData = make_chan 1, outData = make_chan 1, cClose = make_chan 0,
        state = WORKING\<rparr>) = ReadOk
   \<and> queue (inData (snd (Reader \<lparr>fd = 1,
        conn = \<lparr>unread = pack 258 DATA [1, 2, 3] @ [9], written = [], conn_closed = False\<rparr>,
        inData = make_chan 1, outData = make_chan 1, cClose = make_chan 0,
        state = WORKING\<rparr>)))
       = [\<lparr>dType = DATA, head = 258, body = [1, 2, 3]\<rparr>]"
proof -
  let ?s = "\<lparr>fd = 1,
        conn = \<lparr>unread = pack 258 DATA [1, 2, 3] @ [9], written = [], conn_closed = False\<rparr>,
        inData = make_chan 1, outData = make_chan 1, cClose = make_chan 0,
        state = WORKING\<rparr>"
  have "length [1, 2, 3 :: byte] \<le> 65535" by simp
  moreover have "unread (conn ?s) = pack 258 DATA [1, 2, 3] @ [9]" by simp
  moreover have "\<not> conn_closed (conn ?s)" by simp
  moreover have "\<not> is_closed (inData ?s)" by (simp add: make_chan_def)
  ultimately show ?thesis
    using pack_Reader_roundtrip [of "[1, 2, 3]" ?s 258 DATA "[9]", THEN conjunct2]
    by (simp add: make_chan_def)
qed

text \<open>
  Claim C6. For every correlation id, every kind and every body of more than 65535 bytes,
  \<^verbatim>\<open>pack\<close> returns just the five header bytes with both length bytes zero: the frame has
  length 0 and no body, and nothing of the oversized body is in it.
\<close>

theorem pack_oversized:
  "65535 < length bdy \<Longrightarrow> pack h t bdy = [0, 0, t, ucast h, ucast (drop_bit 8 h)]"
  by (simp add: pack_def Let_def)

theorem pack_oversized_witness:
  "65535 < length (replicate 65536 (0::byte))
   \<and> pack 7 DATA (replicate 65536 0) = [0, 0, 3, 7, 0]"
  using pack_oversized [of "replicate 65536 0" 7 DATA] by simp

section \<open>The session lifecycle\<close>

lemmas Release_defs =
  Release_def close_inData_def close_outData_def close_cClose_def chan_close_def

lemma apply_op_state: "apply_op x s = Inr s' \<Longrightarrow> state s' = target x"
  by (cases x)
     (auto simp add: Start_def Close_def Release_defs split: if_splits)

lemma run_trace_targets:
  "\<exists>k \<le> length ops. run_trace s ops = map target (take k ops)"
proof (induction ops arbitrary: s)
  case Nil
  then show ?case by simp
next
  case (Cons x xs)
  show ?case
  proof (cases "apply_op x s")
    case (Inl p)
    then have "run_trace s (x # xs) = map target (take 0 (x # xs))" by simp
    then show ?thesis by blast
  next
    case (Inr s')
    from Cons.IH [of s'] obtain k
      where k: "k \<le> length xs" "run_trace s' xs = map target (take k xs)"
      by blast
    with Inr have "run_trace s (x # xs) = map target (take (Suc k) (x # xs))"
      by (simp add: apply_op_state)
    with k(1) show ?thesis by (metis Suc_le_mono length_Cons)
  qed
qed

text \<open>
  Claim C3, as stated, fails: \<^verbatim>\<open>Start\<close> and \<^verbatim>\<open>Close\<close> write their state whatever the
  session's state is, so \<^verbatim>\<open>Start\<close> after \<^verbatim>\<open>Close\<close> takes a session from \<open>CLOSING\<close> back to
  \<open>WORKING\<close>.
\<close>

theorem Start_after_Close_moves_backward:
  "\<not> moves_forward
       \<lparr>fd = 1, conn = \<lparr>unread = [], written = [], conn_closed = False\<rparr>,
        inData = make_chan 1, outData = make_chan 1, cClose = make_chan 0,
        state = NEW_CONNECTION\<rparr>
       [OpStart, OpClose, OpStart]"
  by (simp add: moves_forward_def Start_def Close_def)

text \<open>
  Claim C3, amended. Every operation writes its own state (\<^verbatim>\<open>Start\<close>: \<open>WORKING\<close>,
  \<^verbatim>\<open>Close\<close>: \<open>CLOSING\<close>, \<^verbatim>\<open>Release\<close>: \<open>CLOSED\<close>); so for every session and every sequence
  of operations that is itself in lifecycle order from the session's state on (no
  \<^verbatim>\<open>Start\<close> after a \<^verbatim>\<open>Close\<close> or a \<^verbatim>\<open>Release\<close>, no \<^verbatim>\<open>Close\<close> after a \<^verbatim>\<open>Release\<close>), the state
  only moves forward along \<open>NEW_CONNECTION\<close>, \<open>WORKING\<close>, \<open>CLOSING\<close>, \<open>CLOSED\<close>.
\<close>

theorem ordered_ops_move_forward:
  assumes "sorted (state s # map target ops)"
  shows "moves_forward s ops"
proof -
  obtain k where k: "run_trace s ops = map target (take k ops)"
    using run_trace_targets by blast
  have "sorted (take (Suc k) (state s # map target ops))"
    using assms by (rule sorted_wrt_take)
  then show ?thesis
    by (simp add: moves_forward_def k take_map)
qed

theorem ordered_ops_move_forward_witness:
  "moves_forward
     \<lparr>fd = 1, conn = \<lparr>unread = [], written = [], conn_closed = False\<rparr>,
      inData = make_chan 1, outData = make_chan 1, cClose = make_chan 0,
      state = NEW_CONNECTION\<rparr>
     [OpStart, OpClose, OpRelease]
   \<and> run_trace
     \<lparr>fd = 1, conn = \<lparr>unread = [], written = [], conn_closed = False\<rparr>,
      inData = make_chan 1, outData = make_chan 1, cClose = make_chan 0,
      state = NEW_CONNECTION\<rparr>
     [OpStart, OpClose, OpRelease] = [WORKING, CLOSING, CLOSED]"
proof -
  let ?s = "\<lparr>fd = 1, conn = \<lparr>unread = [], written = [], conn_closed = False\<rparr>,
      inData = make_chan 1, outData = make_chan 1, cClose = make_chan 0,
      state = NEW_CONNECTION\<rparr>"
  have "sorted (state ?s # map target [OpStart, OpClose, OpRelease])" by simp
  then have "moves_forward ?s [OpStart, OpClose, OpRelease]"
    by (rule ordered_ops_move_forward)
  moreover have "run_trace ?s [OpStart, OpClose, OpRelease] = [WORKING, CLOSING, CLOSED]"
    by (simp add: Start_def Close_def Release_defs make_chan_def)
  ultimately show ?thesis by (rule conjI)
qed

text \<open>
  Claim C4. On every session on which \<^verbatim>\<open>Release\<close> has returned once, a second
  \<^verbatim>\<open>Release\<close> does not return: it panics at its first \<^verbatim>\<open>close\<close>, with the run-time error
  for closing a closed channel.
\<close>

theorem Release_twice_panics:
  "Release s = Inr s' \<Longrightarrow> Release s' = Inl CloseOfClosedChannel"
  by (auto simp add: Release_defs split: if_splits)

theorem Release_twice_panics_witness:
  "Release (Start \<lparr>fd = 1, conn = \<lparr>unread = [], written = [], conn_closed = False\<rparr>,
        inData = make_chan 1, outData = make_chan 1, cClose = make_chan 0,
        state = NEW_CONNECTION\<rparr>)
     = Inr \<lparr>fd = 1, conn = \<lparr>unread = [], written = [], conn_closed = False\<rparr>,
        inData = \<lparr>queue = [], cap = 1, is_closed = True\<rparr>,
        outData = \<lparr>queue = [], cap = 1, is_closed = True\<rparr>,
        cClose = \<lparr>queue = [], cap = 0, is_closed = True\<rparr>, state = CLOSED\<rparr>
   \<and> Release \<lparr>fd = 1, conn = \<lparr>unread = [], written = [], conn_closed = False\<rparr>,
        inData = \<lparr>queue = [], cap = 1, is_closed = True\<rparr>,
        outData = \<lparr>queue = [], cap = 1, is_closed = True\<rparr>,
        cClose = \<lparr>queue = [], cap = 0, is_closed = True\<rparr>, state = CLOSED\<rparr>
     = Inl CloseOfClosedChannel"
proof -
  have r: "Release (Start \<lparr>fd = 1, conn = \<lparr>unread = [], written = [], conn_closed = False\<rparr>,
        inData = make_chan 1, outData = make_chan 1, cClose = make_chan 0,
        state = NEW_CONNECTION\<rparr>)
     = Inr \<lparr>fd = 1, conn = \<lparr>unread = [], written = [], conn_closed = False\<rparr>,
        inData = \<lparr>queue = [], cap = 1, is_closed = True\<rparr>,
        outData = \<lparr>queue = [], cap = 1, is_closed = True\<rparr>,
        cClose = \<lparr>queue = [], cap = 0, is_closed = True\<rparr>, state = CLOSED\<rparr>"
    by (simp add: Release_defs Start_def make_chan_def)
  from r Release_twice_panics [OF r] show ?thesis by (rule conjI)
qed

section \<open>Writing to a session\<close>

lemma example_session_eq:
  "example_session =
     \<lparr>fd = 1, conn = example_conn,
      inData = \<lparr>queue = [], cap = 1, is_closed = False\<rparr>,
      outData = \<lparr>queue = [], cap = 1, is_closed = False\<rparr>,
      cClose = \<lparr>queue = [], cap = 0, is_closed = False\<rparr>, state = WORKING\<rparr>"
  by (simp add: example_session_def NewSession_def CreateSession_def GetNum_def Start_def
        make_chan_def)

lemma example_releasing_eq:
  "example_releasing =
     \<lparr>fd = 1, conn = example_conn,
      inData = \<lparr>queue = [], cap = 1, is_closed = True\<rparr>,
      outData = \<lparr>queue = [], cap = 1, is_closed = True\<rparr>,
      cClose = \<lparr>queue = [], cap = 0, is_closed = False\<rparr>, state = WORKING\<rparr>"
  by (simp add: example_releasing_def example_session_eq close_inData_def close_outData_def
        chan_close_def)

text \<open>
  \<^verbatim>\<open>Release\<close> on a working session goes through the session of the example and ends
  normally: the state is \<open>WORKING\<close> until the last statement.
\<close>

lemma example_releasing_reached:
  "\<exists>s1. close_inData example_session = Inr s1
        \<and> close_outData s1 = Inr example_releasing
        \<and> (\<exists>s'. Release example_session = Inr s')"
  by (simp add: example_releasing_eq example_session_eq Release_defs)

text \<open>
  Claim C7, as stated, fails in its second half: while \<^verbatim>\<open>Release\<close> runs on a working
  session, the session is in state \<open>WORKING\<close> with its outbound channel already closed
  (the state is written last). A \<^verbatim>\<open>doWrite\<close> at that point passes its guard and panics at
  the send; nothing is enqueued. A session that is started again after \<^verbatim>\<open>Release\<close> is in
  the same situation.
\<close>

theorem doWrite_WORKING_closed_queue_panics:
  "state example_releasing = WORKING
   \<and> fst (doWrite example_releasing 7 DATA (Some [1])) = Panicked SendOnClosedChannel
   \<and> queue (outData (snd (doWrite example_releasing 7 DATA (Some [1])))) = []"
  by (simp add: example_releasing_eq doWrite_def chan_send_def)

lemma doWrite_after_restart:
  "Release example_session = Inr s' \<Longrightarrow>
   fst (doWrite (Start s') 7 DATA (Some [1])) = Panicked SendOnClosedChannel"
  by (auto simp add: example_session_eq Release_defs Start_def doWrite_def chan_send_def)

text \<open>
  Claim C7, amended. For every session whose state is not \<open>WORKING\<close>, \<^verbatim>\<open>doWrite\<close> returns
  with the session, its outbound channel included, as it was. For every session in state
  \<open>WORKING\<close> whose outbound channel has not been closed, \<^verbatim>\<open>doWrite\<close> packs the frame (a
  nil payload as the empty one) and puts it at the end of the outbound channel; it
  returns when the channel's buffer had room and is parked on the channel otherwise.
\<close>

theorem doWrite_guard:
  "(state s \<noteq> WORKING \<longrightarrow> doWrite s h t d = (Done, s))
   \<and> (state s = WORKING \<and> \<not> is_closed (outData s) \<longrightarrow>
        doWrite s h t d =
          (if length (queue (outData s)) < cap (outData s) then Done else Blocked,
           s\<lparr>outData := (outData s)
                \<lparr>queue := queue (outData s)
                            @ [pack h t (case d of None \<Rightarrow> [] | Some b \<Rightarrow> b)]\<rparr>\<rparr>))"
  by (simp add: doWrite_def chan_send_def Let_def)

theorem doWrite_guard_witness:
  "doWrite \<lparr>fd = 1, conn = \<lparr>unread = [], written = [], conn_closed = False\<rparr>,
        inData = make_chan 1, outData = make_chan 1, cClose = make_chan 0,
        state = CLOSING\<rparr> 7 DATA (Some [1])
     = (Done, \<lparr>fd = 1, conn = \<lparr>unread = [], written = [], conn_closed = False\<rparr>,
        inData = make_chan 1, outData = make_chan 1, cClose = make_chan 0,
        state = CLOSING\<rparr>)
   \<and> doWrite \<lparr>fd = 1, conn = \<lparr>unread = [], written = [], conn_closed = False\<rparr>,
        inData = make_chan 1, outData = make_chan 1, cClose = make_chan 0,
        state = WORKING\<rparr> 7 DATA None
     = (Done, \<lparr>fd = 1, conn = \<lparr>unread = [], written = [], conn_closed = False\<rparr>,
        inData = make_chan 1,
        outData = \<lparr>queue = [ [0, 0, 3, 7, 0] ], cap = 1, is_closed = False\<rparr>,
        cClose = make_chan 0, state = WORKING\<rparr>)"
  using
    doWrite_guard [of "\<lparr>fd = 1, conn = \<lparr>unread = [], written = [], conn_closed = False\<rparr>,
        inData = make_chan 1, outData = make_chan 1, cClose = make_chan 0,
        state = CLOSING\<rparr>" 7 DATA "Some [1]"]
    doWrite_guard [of "\<lparr>fd = 1, conn = \<lparr>unread = [], written = [], conn_closed = False\<rparr>,
        inData = make_chan 1, outData = make_chan 1, cClose = make_chan 0,
        state = WORKING\<rparr>" 7 DATA None]
  by (simp add: make_chan_def pack_def)

section \<open>The dispatch loop of the server\<close>



section \<open>The client: pending calls\<close>


lemma example_Call_issue:
  "Call_issue example_json example_client [JStr ''Calc.Add'', JNum 1, JNum 2] =
     Inr (\<lparr>callRet = [1 \<mapsto> 0],
           chans = (\<lambda>a. new_waiter)(0 := new_waiter\<lparr>receiving := True\<rparr>),
           next_chan = 1, msgCounter = 1,
           session = Some (example_session
             \<lparr>outData := \<lparr>queue = [pack 1 DATA body_add], cap = 1, is_closed = False\<rparr>\<rparr>)\<rparr>,
          1, 0)"
  by (simp add: Call_issue_def example_json_def example_client_def example_session_def
        NewSession_def CreateSession_def GetNum_def Start_def make_chan_def
        Write_def doWrite_def chan_send_def Let_def)


text \<open>
  Claim C10. For every response frame whose correlation id has no entry in the
  pending-call table, \<^verbatim>\<open>Message\<close> returns and leaves the client as it was: the table and
  every waiter are unchanged.
\<close>

theorem unmatched_response_ignored:
  "callRet c X = None \<Longrightarrow> Client_Message lib c fd_key X bdy = (Done, c)"
  by (simp add: Client_Message_def)

theorem unmatched_response_ignored_witness:
  "callRet example_pending 3 = None
   \<and> Client_Message example_json example_pending 1 3 body_three = (Done, example_pending)"
proof -
  have n: "callRet example_pending 3 = None" by (simp add: example_pending_def)
  from n unmatched_response_ignored [OF n] show ?thesis by (rule conjI)
qed

lemma example_timed_out_eq:
  "example_timed_out =
     \<lparr>callRet = [1 \<mapsto> 0],
      chans = (\<lambda>a. new_waiter)(0 := new_waiter),
      next_chan = 1, msgCounter = 1,
      session = Some (example_session
        \<lparr>outData := \<lparr>queue = [pack 1 DATA body_add], cap = 1, is_closed = False\<rparr>\<rparr>)\<rparr>"
  by (simp add: example_timed_out_def Call_def example_Call_issue Call_select_def
        new_waiter_def Let_def)

text \<open>
  Claim C9, as stated, fails for two kinds of response frames that carry the id of a
  registered call. A frame whose body does not decode (the empty body, which is what the
  server sends for a method without results) is dropped: nothing reaches the waiter and
  the entry stays. And a frame that comes after the call has timed out finds the entry
  still in the table but nobody receiving: the send parks, nothing is delivered and the
  entry stays.
\<close>

theorem response_not_delivered:
  "callRet example_pending 1 = Some 0
   \<and> Client_Message example_json example_pending 1 1 [] = (Done, example_pending)
   \<and> received (chans example_pending 0) = None
   \<and> callRet example_timed_out 1 = Some 0
   \<and> fst (Client_Message example_json example_timed_out 1 1 body_three) = Blocked
   \<and> callRet (snd (Client_Message example_json example_timed_out 1 1 body_three)) 1 = Some 0
   \<and> received (chans (snd (Client_Message example_json example_timed_out 1 1 body_three)) 0)
       = None"
  by (simp add: example_timed_out_eq)
     (simp add: Client_Message_def example_pending_def example_json_def new_waiter_def
        waiter_send_def body_bad_arg_def body_add_def body_three_def)

text \<open>
  Claim C9, amended. For every pending-call table: a response frame with correlation id
  \<open>X\<close> whose body decodes as a JSON array, received while the caller registered under \<open>X\<close>
  is still blocked on its waiter (the waiter not closed), is delivered to that waiter and
  to no other; the waiter is closed, no other waiter changes, and the table loses the
  entry for \<open>X\<close> and no other entry.
\<close>

theorem response_resolves_its_waiter:
  assumes "callRet c X = Some w"
    and "Unmarshal lib bdy = Inr as"
    and "receiving (chans c w)"
    and "\<not> wclosed (chans c w)"
  shows "fst (Client_Message lib c fd_key X bdy) = Done
    \<and> received (chans (snd (Client_Message lib c fd_key X bdy)) w) = Some as
    \<and> wclosed (chans (snd (Client_Message lib c fd_key X bdy)) w)
    \<and> (\<forall>w'. w' \<noteq> w \<longrightarrow> chans (snd (Client_Message lib c fd_key X bdy)) w' = chans c w')
    \<and> callRet (snd (Client_Message lib c fd_key X bdy)) = (callRet c)(X := None)"
  using assms
  by (simp add: Client_Message_def waiter_send_def waiter_close_def Let_def)

theorem response_resolves_its_waiter_witness:
  "fst (Client_Message example_json example_pending 1 1 body_three) = Done
   \<and> received (chans (snd (Client_Message example_json example_pending 1 1 body_three)) 0)
       = Some [JNum 3]
   \<and> chans (snd (Client_Message example_json example_pending 1 1 body_three)) 1
       = new_waiter\<lparr>receiving := True\<rparr>
   \<and> callRet (snd (Client_Message example_json example_pending 1 1 body_three)) 1 = None
   \<and> callRet (snd (Client_Message example_json example_pending 1 1 body_three)) 2 = Some 1"
proof -
  have a: "callRet example_pending 1 = Some 0" by (simp add: example_pending_def)
  have b: "Unmarshal example_json body_three = Inr [JNum 3]"
    by (simp add: example_json_def body_bad_arg_def body_add_def body_three_def)
  have c: "receiving (chans example_pending 0)"
    by (simp add: example_pending_def new_waiter_def)
  have d: "\<not> wclosed (chans example_pending 0)"
    by (simp add: example_pending_def new_waiter_def)
  have e: "chans example_pending 1 = new_waiter\<lparr>receiving := True\<rparr>"
    by (simp add: example_pending_def)
  have f: "callRet example_pending 2 = Some 1" by (simp add: example_pending_def)
  show ?thesis
    using response_resolves_its_waiter [OF a b c d, of 1] e f by simp
qed

section \<open>The server: requests that cannot be served\<close>

lemma LastIndex_Calc_Add: "LastIndex ''Calc.Add'' CHR ''.'' = 4"
  by (simp add: LastIndex_def)

text \<open>
  Four of the failure modes end in a logged \<^verbatim>\<open>return\<close>: the server, its sessions
  included, is as it was, so no frame was written.
\<close>

lemma Server_Message_drops:
  assumes "sessions srv fd_key = Some s"
  shows "Unmarshal lib bdy = Inl e \<Longrightarrow> Server_Message lib srv fd_key sid bdy = (Done, srv)"
    and "Unmarshal lib bdy = Inr (JStr info # rest) \<Longrightarrow> LastIndex info CHR ''.'' < 0
         \<Longrightarrow> Server_Message lib srv fd_key sid bdy = (Done, srv)"
    and "Unmarshal lib bdy = Inr (JStr info # rest) \<Longrightarrow> 0 \<le> LastIndex info CHR ''.''
         \<Longrightarrow> serviceMap srv (take (nat (LastIndex info CHR ''.'')) info) = None
         \<Longrightarrow> Server_Message lib srv fd_key sid bdy = (Done, srv)"
    and "Unmarshal lib bdy = Inr (JStr info # rest) \<Longrightarrow> 0 \<le> LastIndex info CHR ''.''
         \<Longrightarrow> serviceMap srv (take (nat (LastIndex info CHR ''.'')) info) = Some sInfo
         \<Longrightarrow> methods sInfo (drop (nat (LastIndex info CHR ''.'') + 1) info) = None
         \<Longrightarrow> Server_Message lib srv fd_key sid bdy = (Done, srv)"
  using assms by (simp_all add: Server_Message_def Let_def)

text \<open>
  The fifth does not: an argument that \<^verbatim>\<open>Convert\<close> cannot convert (or that is missing)
  makes \<^verbatim>\<open>Message\<close> panic, and so does a first element that is not a string.
\<close>

lemma Server_Message_convert_panics:
  assumes "sessions srv fd_key = Some s"
    and "Unmarshal lib bdy = Inr (JStr info # rest)"
    and "0 \<le> LastIndex info CHR ''.''"
    and "serviceMap srv (take (nat (LastIndex info CHR ''.'')) info) = Some sInfo"
    and "methods sInfo (drop (nat (LastIndex info CHR ''.'') + 1) info) = Some mInfo"
    and "convert_args rest (args mInfo) = Inl p"
  shows "Server_Message lib srv fd_key sid bdy = (Panicked p, srv)"
  using assms by (simp add: Server_Message_def Let_def)

lemma convert_args_fails:
  "Convert a t = None \<Longrightarrow> convert_args (a # as) (t # ts) = Inl ReflectConvert"
  by simp

text \<open>
  Claim C1 does not hold of the code. On the request \<^verbatim>\<open>["Calc.Add","a",1]\<close> for the
  registered method \<^verbatim>\<open>Add(a int, b int)\<close>, the string \<^verbatim>\<open>"a"\<close> has no conversion to
  \<^verbatim>\<open>int\<close>: \<^verbatim>\<open>Message\<close> does not drop the frame and return, it panics.
\<close>

theorem Server_Message_bad_argument_panics:
  "Server_Message example_json example_server 1 5 body_bad_arg
     = (Panicked ReflectConvert, example_server)"
  by (simp add: Server_Message_def example_json_def example_server_def example_Add_def
        LastIndex_Calc_Add)

text \<open>
  For comparison, the request \<^verbatim>\<open>["Calc.Add",1,2]\<close> is served: the reply \<^verbatim>\<open>[3]\<close> goes, as a
  \<open>DATA\<close> frame with the id of the request, to the outbound channel of the session.
\<close>

lemma Server_Message_example_reply:
  "fst (Server_Message example_json example_server 1 5 body_add) = Done
   \<and> map_option (queue \<circ> outData)
         (sessions (snd (Server_Message example_json example_server 1 5 body_add)) 1)
       = Some [pack 5 DATA body_three]"
  by (simp add: Server_Message_def example_json_def example_server_def example_Add_def
        LastIndex_Calc_Add RunFunc_def Server_Write_def Write_def doWrite_def chan_send_def
        example_session_eq body_bad_arg_def body_add_def Let_def)

end
